theory Spec2Isabelle
  imports
    Main
    "HOL-Library.Word"
    "HOL-Library.Signed_Division"
    "HOL-Library.Multiset"
begin

section \<open>Failure modes\<close>

text \<open>
  Every way in which one of the modelled functions can stop without a result is a value:
  \<^item> \<open>AssertionFailed\<close>: \<^verbatim>\<open>internal::Assert(false)\<close>;
  \<^item> \<open>NullDereference\<close>: \<^verbatim>\<open>m_DatabaseMem->...\<close> with a null \<^verbatim>\<open>m_DatabaseMem\<close>;
  \<^item> \<open>SignedOverflow\<close>: an \<^verbatim>\<open>int\<close> addition whose result does not fit 32 bits;
  \<^item> \<open>InvalidAccess\<close>: a read or write of an element address that is not allocated;
  \<^item> \<open>OutOfBounds\<close>: the byte cursor's error of the specification.
\<close>

datatype error = AssertionFailed | NullDereference | SignedOverflow | InvalidAccess | OutOfBounds

text \<open>
  Modelled from the spec: \<^verbatim>\<open>internal::Assert\<close> is declared in \<^verbatim>\<open>Core.h\<close>, which is
  not among the sources. The specification (section 7, ContractViolation) says that a
  failed assertion aborts and is not recoverable.
\<close>

definition Assert :: "bool \<Rightarrow> error + unit" where
  "Assert expression = (if expression then Inr () else Inl AssertionFailed)"

section \<open>The primitive model (\<^verbatim>\<open>inc/clcpp/Database.h\<close>)\<close>

text \<open>
  \<^verbatim>\<open>struct Name { unsigned int hash; const char* text; }\<close>; a null \<^verbatim>\<open>text\<close> is \<open>None\<close>.
\<close>

record Name =
  hash :: "32 word"
  text' :: "string option"

text \<open>\<^verbatim>\<open>Name() : hash(0), text(0)\<close>\<close>

definition Name_ctor :: Name where
  "Name_ctor = \<lparr>hash = 0, text' = None\<rparr>"

datatype Kind =
    KIND_NONE
  | KIND_ATTRIBUTE
  | KIND_FLAG_ATTRIBUTE
  | KIND_INT_ATTRIBUTE
  | KIND_FLOAT_ATTRIBUTE
  | KIND_NAME_ATTRIBUTE
  | KIND_TEXT_ATTRIBUTE
  | KIND_TYPE
  | KIND_ENUM_CONSTANT
  | KIND_ENUM
  | KIND_FIELD
  | KIND_FUNCTION
  | KIND_TEMPLATE_TYPE
  | KIND_TEMPLATE
  | KIND_CLASS
  | KIND_NAMESPACE

text \<open>
  \<^verbatim>\<open>struct Primitive { Kind kind; Name name; const Primitive* parent; }\<close>. The parent is a
  non-owning back reference; it is kept as an optional address. Derived structs are record
  extensions, so a function on \<open>'a Primitive_scheme\<close> accepts every derived node, as a
  function on \<^verbatim>\<open>const Primitive*\<close> does.
\<close>

record Primitive =
  kind :: Kind
  name :: Name
  parent :: "nat option"

text \<open>\<^verbatim>\<open>struct Type : public Primitive { unsigned int size; }\<close>\<close>

record Type = Primitive +
  size' :: "32 word"

subsection \<open>Checked casts\<close>

text \<open>
  Each cast asserts the kind tag and returns \<^verbatim>\<open>this\<close> under the derived type; the node
  itself is returned unchanged.
\<close>

definition AsEnum :: "'a Type_scheme \<Rightarrow> error + 'a Type_scheme" where
  "AsEnum this =
     (case Assert (kind this = KIND_ENUM) of Inl e \<Rightarrow> Inl e | Inr _ \<Rightarrow> Inr this)"

definition AsTemplateType :: "'a Type_scheme \<Rightarrow> error + 'a Type_scheme" where
  "AsTemplateType this =
     (case Assert (kind this = KIND_TEMPLATE_TYPE) of Inl e \<Rightarrow> Inl e | Inr _ \<Rightarrow> Inr this)"

definition AsClass :: "'a Type_scheme \<Rightarrow> error + 'a Type_scheme" where
  "AsClass this =
     (case Assert (kind this = KIND_CLASS) of Inl e \<Rightarrow> Inl e | Inr _ \<Rightarrow> Inr this)"

text \<open>
  \<^verbatim>\<open>struct Attribute : public Primitive\<close> adds no field of its own, so an attribute node is
  any \<open>'a Primitive_scheme\<close>.
\<close>

definition AsIntAttribute :: "'a Primitive_scheme \<Rightarrow> error + 'a Primitive_scheme" where
  "AsIntAttribute this =
     (case Assert (kind this = KIND_INT_ATTRIBUTE) of Inl e \<Rightarrow> Inl e | Inr _ \<Rightarrow> Inr this)"

definition AsFloatAttribute :: "'a Primitive_scheme \<Rightarrow> error + 'a Primitive_scheme" where
  "AsFloatAttribute this =
     (case Assert (kind this = KIND_FLOAT_ATTRIBUTE) of Inl e \<Rightarrow> Inl e | Inr _ \<Rightarrow> Inr this)"

definition AsNameAttribute :: "'a Primitive_scheme \<Rightarrow> error + 'a Primitive_scheme" where
  "AsNameAttribute this =
     (case Assert (kind this = KIND_NAME_ATTRIBUTE) of Inl e \<Rightarrow> Inl e | Inr _ \<Rightarrow> Inr this)"

definition AsTextAttribute :: "'a Primitive_scheme \<Rightarrow> error + 'a Primitive_scheme" where
  "AsTextAttribute this =
     (case Assert (kind this = KIND_TEXT_ATTRIBUTE) of Inl e \<Rightarrow> Inl e | Inr _ \<Rightarrow> Inr this)"

section \<open>Hash-indexed lookup (\<^verbatim>\<open>src/clReflectCpp/Database.cpp\<close>)\<close>

text \<open>
  Modelled from the spec: \<^verbatim>\<open>crcpp::CArray\<close> is declared in \<^verbatim>\<open>Core.h\<close>, which is not
  among the sources. The loaded database is read-only, so an array is the list of its
  elements; \<^verbatim>\<open>size()\<close> is an \<^verbatim>\<open>unsigned int\<close>, and \<^verbatim>\<open>operator []\<close> asserts
  \<^verbatim>\<open>index < size\<close> before the access, as the derived \<^verbatim>\<open>CArray\<close> of the export tool does.
  An array of pointers to nodes is the list of the nodes pointed to.
\<close>

definition size_CArray :: "'a list \<Rightarrow> 32 word" where
  "size_CArray entries = of_nat (length entries)"

definition index_CArray :: "'a list \<Rightarrow> 32 word \<Rightarrow> error + 'a" where
  "index_CArray entries index =
     (case Assert (index < size_CArray entries) of
        Inl e \<Rightarrow> Inl e
      | Inr _ \<Rightarrow> Inr (entries ! unat index))"

text \<open>
  The comparison functions subtract two \<^verbatim>\<open>unsigned int\<close> values, which wraps modulo
  \<open>2 ^ 32\<close>, and return the difference as an \<^verbatim>\<open>int\<close>: the two's complement reading
  \<open>sint\<close> of the 32-bit difference.
\<close>

definition CompareNames :: "Name \<Rightarrow> 32 word \<Rightarrow> int" where
  "CompareNames nm h = sint (h - hash nm)"

definition ComparePrimitives :: "'a Primitive_scheme \<Rightarrow> 32 word \<Rightarrow> int" where
  "ComparePrimitives primitive h = sint (h - hash (name primitive))"

text \<open>
  The value of an \<^verbatim>\<open>int\<close> expression: the mathematical result when it fits 32 bits,
  and no result otherwise.
\<close>

definition int_result :: "int \<Rightarrow> error + int" where
  "int_result k = (if - (2 ^ 31) \<le> k \<and> k \<le> 2 ^ 31 - 1 then Inr k else Inl SignedOverflow)"

text \<open>
  The \<^verbatim>\<open>while (first <= last)\<close> loop of \<^verbatim>\<open>BinarySearch\<close>. The variables \<^verbatim>\<open>first\<close>,
  \<^verbatim>\<open>last\<close>, \<^verbatim>\<open>mid\<close> and \<^verbatim>\<open>cmp\<close> are \<^verbatim>\<open>int\<close>s. The sum \<^verbatim>\<open>first + last\<close> is the one
  expression that can leave the 32-bit range; \<^verbatim>\<open>/ 2\<close> truncates towards zero (\<open>sdiv\<close>);
  \<^verbatim>\<open>entries[mid]\<close> converts \<^verbatim>\<open>mid\<close> to \<^verbatim>\<open>unsigned int\<close>. The magnitude of \<^verbatim>\<open>mid\<close> is at
  most \<open>2 ^ 30\<close>, so \<^verbatim>\<open>mid + 1\<close> and \<^verbatim>\<open>mid - 1\<close> stay in range.
\<close>

function BinarySearch_loop ::
  "'a list \<Rightarrow> ('a \<Rightarrow> 32 word \<Rightarrow> int) \<Rightarrow> 32 word \<Rightarrow> int \<Rightarrow> int \<Rightarrow> error + int"
where
  "BinarySearch_loop entries COMPARE_FUNC compare_value first last' =
     (if first \<le> last' then
        (case int_result (first + last') of
           Inl e \<Rightarrow> Inl e
         | Inr s \<Rightarrow>
            (let mid = s sdiv 2 in
             case index_CArray entries (word_of_int mid) of
               Inl e \<Rightarrow> Inl e
             | Inr entry \<Rightarrow>
                (let cmp = COMPARE_FUNC entry compare_value in
                 if cmp > 0 then
                   BinarySearch_loop entries COMPARE_FUNC compare_value (mid + 1) last'
                 else if cmp < 0 then
                   BinarySearch_loop entries COMPARE_FUNC compare_value first (mid - 1)
                 else Inr mid)))
      else Inr (- 1))"
  by pat_completeness auto
termination
proof (relation "measure (\<lambda>(entries, f, v, first, last'). nat (last' - first + 1))", goal_cases)
  case 1
  show ?case by simp
next
  case (2 entries COMPARE_FUNC compare_value first last' s mid entry cmp)
  then have s: "s = first + last'"
    by (simp add: int_result_def split: if_splits)
  from \<open>first \<le> last'\<close> have "first \<le> (first + last') sdiv 2"
    by (auto simp: signed_divide_int_def sgn_if)
  with 2 s show ?case by simp
next
  case (3 entries COMPARE_FUNC compare_value first last' s mid entry cmp)
  then have s: "s = first + last'"
    by (simp add: int_result_def split: if_splits)
  from \<open>first \<le> last'\<close> have "(first + last') sdiv 2 \<le> last'"
    by (auto simp: signed_divide_int_def sgn_if)
  with 3 s show ?case by simp
qed

text \<open>
  \<^verbatim>\<open>int first = 0; int last = entries.size() - 1;\<close> The subtraction is unsigned and its
  result is converted to \<^verbatim>\<open>int\<close>, so an empty array gives \<open>last = -1\<close>.
\<close>

definition BinarySearch :: "('a \<Rightarrow> 32 word \<Rightarrow> int) \<Rightarrow> 'a list \<Rightarrow> 32 word \<Rightarrow> error + int" where
  "BinarySearch COMPARE_FUNC entries compare_value =
     BinarySearch_loop entries COMPARE_FUNC compare_value 0 (sint (size_CArray entries - 1))"

text \<open>\<^verbatim>\<open>internal::FindPrimitive\<close>: the null pointer is \<open>None\<close>.\<close>

definition FindPrimitive ::
  "'a Primitive_scheme list \<Rightarrow> 32 word \<Rightarrow> error + 'a Primitive_scheme option"
where
  "FindPrimitive primitives h =
     (case BinarySearch ComparePrimitives primitives h of
        Inl e \<Rightarrow> Inl e
      | Inr index \<Rightarrow>
          if index = - 1 then Inr None
          else (case index_CArray primitives (word_of_int index) of
                  Inl e \<Rightarrow> Inl e
                | Inr p \<Rightarrow> Inr (Some p)))"

section \<open>The database facade\<close>

text \<open>
  \<^verbatim>\<open>internal::DatabaseMem\<close>, with the arrays that the queries of \<^verbatim>\<open>Database.cpp\<close> read:
  the name table, the flattened array of pointers to all type-like nodes, and the owned
  arrays of namespaces and functions. The queries read only the \<^verbatim>\<open>Primitive\<close> base of a
  node, so the derived parts are type parameters.
\<close>

record ('t, 'n, 'f) DatabaseMem =
  names :: "Name list"
  type_primitives :: "'t Type_scheme list"
  namespaces :: "'n Primitive_scheme list"
  functions' :: "'f Primitive_scheme list"

text \<open>\<^verbatim>\<open>class Database\<close>: a null \<^verbatim>\<open>m_DatabaseMem\<close> is \<open>None\<close>.\<close>

record ('t, 'n, 'f) Database =
  m_DatabaseMem :: "('t, 'n, 'f) DatabaseMem option"

text \<open>\<^verbatim>\<open>Database::Database() : m_DatabaseMem(0)\<close>\<close>

definition Database_ctor :: "('t, 'n, 'f) Database" where
  "Database_ctor = \<lparr>m_DatabaseMem = None\<rparr>"

text \<open>\<^verbatim>\<open>bool IsLoaded() const { return m_DatabaseMem != 0; }\<close>\<close>

definition IsLoaded :: "('t, 'n, 'f) Database \<Rightarrow> bool" where
  "IsLoaded db = (m_DatabaseMem db \<noteq> None)"



text \<open>
  \<^verbatim>\<open>Database::GetName(const char* text)\<close>. \<^verbatim>\<open>internal::HashNameString\<close> is not among the
  sources: it is a parameter. A null \<^verbatim>\<open>text\<close> is \<open>None\<close>.
\<close>

definition GetName ::
  "(string \<Rightarrow> 32 word) \<Rightarrow> ('t, 'n, 'f) Database \<Rightarrow> string option \<Rightarrow> error + Name"
where
  "GetName HashNameString db text =
     (case text of
        None \<Rightarrow> Inr Name_ctor
      | Some t \<Rightarrow>
         (let h = HashNameString t in
          if h = 0 then Inr Name_ctor
          else
            (case m_DatabaseMem db of
               None \<Rightarrow> Inl NullDereference
             | Some mem \<Rightarrow>
                (case BinarySearch CompareNames (names mem) h of
                   Inl e \<Rightarrow> Inl e
                 | Inr index \<Rightarrow>
                     if index = - 1 then Inr Name_ctor
                     else index_CArray (names mem) (word_of_int index)))))"

text \<open>\<^verbatim>\<open>Database::GetType\<close>\<close>

definition GetType ::
  "('t, 'n, 'f) Database \<Rightarrow> 32 word \<Rightarrow> error + 't Type_scheme option"
where
  "GetType db h =
     (case m_DatabaseMem db of
        None \<Rightarrow> Inl NullDereference
      | Some mem \<Rightarrow> FindPrimitive (type_primitives mem) h)"

text \<open>\<^verbatim>\<open>Database::GetNamespace\<close>: the result points to the element of the owned array.\<close>

definition GetNamespace ::
  "('t, 'n, 'f) Database \<Rightarrow> 32 word \<Rightarrow> error + 'n Primitive_scheme option"
where
  "GetNamespace db h =
     (case m_DatabaseMem db of
        None \<Rightarrow> Inl NullDereference
      | Some mem \<Rightarrow>
         (case BinarySearch ComparePrimitives (namespaces mem) h of
            Inl e \<Rightarrow> Inl e
          | Inr index \<Rightarrow>
              if index = - 1 then Inr None
              else (case index_CArray (namespaces mem) (word_of_int index) of
                      Inl e \<Rightarrow> Inl e
                    | Inr p \<Rightarrow> Inr (Some p))))"

text \<open>\<^verbatim>\<open>Database::GetFunction\<close>\<close>

definition GetFunction ::
  "('t, 'n, 'f) Database \<Rightarrow> 32 word \<Rightarrow> error + 'f Primitive_scheme option"
where
  "GetFunction db h =
     (case m_DatabaseMem db of
        None \<Rightarrow> Inl NullDereference
      | Some mem \<Rightarrow>
         (case BinarySearch ComparePrimitives (functions' mem) h of
            Inl e \<Rightarrow> Inl e
          | Inr index \<Rightarrow>
              if index = - 1 then Inr None
              else (case index_CArray (functions' mem) (word_of_int index) of
                      Inl e \<Rightarrow> Inl e
                    | Inr p \<Rightarrow> Inr (Some p))))"

section \<open>Array helpers of the export tool (\<^verbatim>\<open>src/clReflectExport\<close>)\<close>

text \<open>
  The helpers mutate arrays through references, and \<^verbatim>\<open>shallow_copy\<close> makes two arrays
  share one element block, so the arrays live in an explicit store. A \<^verbatim>\<open>clcpp::CArray\<close>
  object has the three fields that the helpers assign; pointers are addresses and the null
  pointer is address \<open>0\<close>.
\<close>

record CArray =
  size' :: "32 word"
  data :: nat
  allocator :: nat

text \<open>
  The store: the array objects by reference, and the element memory by address, counted
  in elements (\<^verbatim>\<open>data[i]\<close> is the cell at \<open>data + i\<close>). A cell that is not allocated is
  \<open>None\<close>.
\<close>

record 'a heap =
  arrays :: "nat \<Rightarrow> CArray"
  cells :: "nat \<Rightarrow> 'a option"

text \<open>\<^verbatim>\<open>shallow_copy(dest, src)\<close>: three assignments, in the source's order.\<close>

definition shallow_copy :: "'a heap \<Rightarrow> nat \<Rightarrow> nat \<Rightarrow> 'a heap" where
  "shallow_copy h dest src =
     (let h1 = h\<lparr>arrays := (arrays h)
                  (dest := (arrays h dest)\<lparr>size' := size' (arrays h src)\<rparr>)\<rparr>;
          h2 = h1\<lparr>arrays := (arrays h1)
                  (dest := (arrays h1 dest)\<lparr>data := data (arrays h1 src)\<rparr>)\<rparr>;
          h3 = h2\<lparr>arrays := (arrays h2)
                  (dest := (arrays h2 dest)\<lparr>allocator := allocator (arrays h2 src)\<rparr>)\<rparr>
      in h3)"

text \<open>
  \<^verbatim>\<open>unstable_remove(array, index)\<close>: the assertion, the element assignment
  \<^verbatim>\<open>array.data[index] = array.data[array.size - 1]\<close> and \<^verbatim>\<open>array.size--\<close>.
\<close>

definition unstable_remove :: "'a heap \<Rightarrow> nat \<Rightarrow> 32 word \<Rightarrow> error + 'a heap" where
  "unstable_remove h array index =
     (case Assert (index < size' (arrays h array)) of
        Inl e \<Rightarrow> Inl e
      | Inr _ \<Rightarrow>
         (case cells h (data (arrays h array) + unat (size' (arrays h array) - 1)) of
            None \<Rightarrow> Inl InvalidAccess
          | Some v \<Rightarrow>
             (if cells h (data (arrays h array) + unat index) = None then Inl InvalidAccess
              else
                (let h1 = h\<lparr>cells := (cells h)(data (arrays h array) + unat index \<mapsto> v)\<rparr>;
                     h2 = h1\<lparr>arrays := (arrays h1)
                             (array := (arrays h1 array)\<lparr>size' := size' (arrays h1 array) - 1\<rparr>)\<rparr>
                 in Inr h2))))"

text \<open>
  The contents of an array: its first \<^verbatim>\<open>size\<close> cells. A block is allocated when each
  of these cells is.
\<close>

definition allocated :: "'a heap \<Rightarrow> nat \<Rightarrow> bool" where
  "allocated h array =
     (\<forall>j \<in> {0 ..< unat (size' (arrays h array))}.
        cells h (data (arrays h array) + j) \<noteq> None)"

definition elements :: "'a heap \<Rightarrow> nat \<Rightarrow> 'a list" where
  "elements h array =
     map (\<lambda>j. the (cells h (data (arrays h array) + j))) [0 ..< unat (size' (arrays h array))]"

section \<open>The byte cursor (\<^verbatim>\<open>clutl::DataBuffer\<close>)\<close>

text \<open>
  \<^verbatim>\<open>class DataBuffer { char* m_Data; unsigned int m_Size; unsigned int m_Position; }\<close>:
  the buffer is the list of its \<^verbatim>\<open>m_Size\<close> bytes.
\<close>

record DataBuffer =
  m_Data :: "8 word list"
  m_Size :: "32 word"
  m_Position :: "32 word"

text \<open>
  Modelled from the spec: the body of \<^verbatim>\<open>DataBuffer::Write\<close> is not among the sources,
  only its declaration \<^verbatim>\<open>void Write(const void* data, unsigned int length)\<close>. The
  specification (section 4.1): ``append at cursor, advance cursor, fails with OutOfBounds
  if it would exceed capacity''. The bytes written are the first \<^verbatim>\<open>length\<close> bytes at
  \<^verbatim>\<open>data\<close>.
\<close>

definition Write :: "DataBuffer \<Rightarrow> 8 word list \<Rightarrow> 32 word \<Rightarrow> error + DataBuffer" where
  "Write buf data' length' =
     (if unat (m_Size buf) < unat (m_Position buf) + unat length' then Inl OutOfBounds
      else Inr (buf\<lparr>m_Data := take (unat (m_Position buf)) (m_Data buf)
                               @ take (unat length') data'
                               @ drop (unat (m_Position buf) + unat length') (m_Data buf),
                    m_Position := m_Position buf + length'\<rparr>))"

section \<open>Concrete inputs\<close>

text \<open>
  A stand-in for \<^verbatim>\<open>internal::HashNameString\<close>, used only where an example needs some
  concrete hash function: the sum of the character codes.
\<close>

definition sample_hash :: "string \<Rightarrow> 32 word" where
  "sample_hash s = of_nat (sum_list (map of_char s))"

text \<open>A name and a node with a given hash, and the four-entry array of the specification.\<close>

definition name_of_hash :: "32 word \<Rightarrow> Name" where
  "name_of_hash h = \<lparr>hash = h, text' = None\<rparr>"

definition type_of_hash :: "Kind \<Rightarrow> 32 word \<Rightarrow> Type" where
  "type_of_hash k h = \<lparr>kind = k, name = name_of_hash h, parent = None, Type.size' = 0\<rparr>"

definition four_names :: "Name list" where
  "four_names = [name_of_hash 10, name_of_hash 20, name_of_hash 30, name_of_hash 40]"

definition four_types :: "Type list" where
  "four_types = [type_of_hash KIND_TYPE 10, type_of_hash KIND_ENUM 20,
                 type_of_hash KIND_CLASS 30, type_of_hash KIND_TYPE 40]"

text \<open>Two nodes whose hashes are more than \<open>2 ^ 31\<close> apart, in ascending order.\<close>

definition far_types :: "Type list" where
  "far_types = [type_of_hash KIND_TYPE 1, type_of_hash KIND_CLASS 0x80000002]"

text \<open>An attribute node: a \<^verbatim>\<open>Primitive\<close> with an attribute kind.\<close>

definition attribute_of_hash :: "Kind \<Rightarrow> 32 word \<Rightarrow> Primitive" where
  "attribute_of_hash k h = \<lparr>kind = k, name = name_of_hash h, parent = None\<rparr>"

text \<open>
  A loaded database with the four names and four types, a loaded database with no entry
  at all, and a facade that has not been loaded.
\<close>

definition four_mem :: "(unit, unit, unit) DatabaseMem" where
  "four_mem = \<lparr>names = four_names, type_primitives = four_types, namespaces = [], functions' = []\<rparr>"

definition four_db :: "(unit, unit, unit) Database" where
  "four_db = \<lparr>m_DatabaseMem = Some four_mem\<rparr>"

definition empty_mem :: "(unit, unit, unit) DatabaseMem" where
  "empty_mem = \<lparr>names = [], type_primitives = [], namespaces = [], functions' = []\<rparr>"

definition empty_db :: "(unit, unit, unit) Database" where
  "empty_db = \<lparr>m_DatabaseMem = Some empty_mem\<rparr>"

definition unloaded_db :: "(unit, unit, unit) Database" where
  "unloaded_db = Database_ctor"


text \<open>
  A store with one array of three elements \<open>10, 20, 30\<close> at reference \<open>1\<close>, which
  owns its block at address \<open>100\<close> (allocator \<open>7\<close>); every other reference is an empty
  array.
\<close>

definition sample_heap :: "nat heap" where
  "sample_heap =
     \<lparr>arrays = (\<lambda>r. \<lparr>size' = 0, data = 0, allocator = 0\<rparr>)
                 (1 := \<lparr>size' = 3, data = 100, allocator = 7\<rparr>),
      cells = [100 \<mapsto> 10, 101 \<mapsto> 20, 102 \<mapsto> 30]\<rparr>"

text \<open>A buffer of four bytes with the cursor at position \<open>1\<close>.\<close>

definition sample_buffer :: DataBuffer where
  "sample_buffer = \<lparr>m_Data = [0, 0, 0, 0], m_Size = 4, m_Position = 1\<rparr>"

section \<open>Properties of the binary search\<close>

text \<open>
  An index inside an array of at most \<open>2 ^ 30\<close> entries passes the bounds assertion and
  reads the entry at that index.
\<close>

lemma index_CArray_valid:
  assumes "0 \<le> i" and "i < int (length xs)" and "length xs \<le> 2 ^ 30"
  shows "index_CArray xs (word_of_int i) = Inr (xs ! nat i)"
proof -
  have n: "nat i < length xs" using assms by linarith
  have len: "length xs < 2 ^ 32" using assms(3) by simp
  have w: "(word_of_int i :: 32 word) = of_nat (nat i)"
    using assms(1) by (rule word_of_int_nat)
  have tb: "take_bit 32 (nat i) = nat i" "take_bit 32 (length xs) = length xs"
    using n len by (simp_all add: take_bit_nat_eq_self)
  have lt: "(of_nat (nat i) :: 32 word) < of_nat (length xs)"
    using n tb by (simp add: of_nat_word_less_iff)
  have u: "unat (of_nat (nat i) :: 32 word) = nat i"
    using n len by (simp add: unat_of_nat)
  show ?thesis
    unfolding index_CArray_def size_CArray_def Assert_def w using lt u by simp
qed

text \<open>For such an array the initial value of \<^verbatim>\<open>last\<close> is the last index.\<close>

lemma sint_size_minus_one:
  assumes "length xs \<le> 2 ^ 30"
  shows "sint (size_CArray xs - 1) = int (length xs) - 1"
proof (cases "length xs")
  case 0
  then show ?thesis by (simp add: size_CArray_def)
next
  case (Suc m)
  then have m: "int m < 2 ^ 31" using assms by simp
  have "size_CArray xs - 1 = (of_nat m :: 32 word)"
    using Suc by (simp add: size_CArray_def)
  moreover have "sint (of_nat m :: 32 word) = int m"
    using m by (simp add: signed_of_nat signed_take_bit_int_eq_self)
  ultimately show ?thesis using Suc by simp
qed

text \<open>
  Started inside such an array, the loop returns, without a failed assertion or an
  overflow, either \<open>-1\<close> or an index whose entry compares equal.
\<close>

lemma BinarySearch_loop_sound:
  assumes "length entries \<le> 2 ^ 30" and "0 \<le> first" and "last' < int (length entries)"
  shows "\<exists>r. BinarySearch_loop entries C v first last' = Inr r
           \<and> (r = - 1 \<or> (0 \<le> r \<and> r < int (length entries) \<and> C (entries ! nat r) v = 0))"
  using assms
proof (induction entries C v first last' rule: BinarySearch_loop.induct)
  case (1 entries C v first last')
  show ?case
  proof (cases "first \<le> last'")
    case False
    then show ?thesis by (subst BinarySearch_loop.simps) simp
  next
    case True
    define mid where "mid = (first + last') sdiv 2"
    have lo: "first \<le> mid" and hi: "mid \<le> last'"
      using True by (auto simp: mid_def signed_divide_int_def sgn_if)
    have "first + last' \<le> 2 ^ 31 - 1" and "- (2 ^ 31) \<le> first + last'"
      using True "1.prems" by simp_all
    then have sum: "int_result (first + last') = Inr (first + last')"
      by (simp add: int_result_def)
    have mid0: "0 \<le> mid" and midn: "mid < int (length entries)"
      using lo hi "1.prems" by simp_all
    have idx: "index_CArray entries (word_of_int mid) = Inr (entries ! nat mid)"
      using mid0 midn "1.prems"(1) by (rule index_CArray_valid)
    define cmp where "cmp = C (entries ! nat mid) v"
    consider (up) "cmp > 0" | (down) "\<not> cmp > 0" "cmp < 0" | (hit) "cmp = 0"
      by linarith
    then show ?thesis
    proof cases
      case up
      have "\<exists>r. BinarySearch_loop entries C v (mid + 1) last' = Inr r
           \<and> (r = - 1 \<or> (0 \<le> r \<and> r < int (length entries) \<and> C (entries ! nat r) v = 0))"
        using "1.IH"(1) [OF True sum mid_def idx cmp_def up] "1.prems" mid0 by simp
      moreover have "BinarySearch_loop entries C v first last'
                      = BinarySearch_loop entries C v (mid + 1) last'"
        using True sum idx up
        by (subst BinarySearch_loop.simps) (simp add: mid_def cmp_def Let_def)
      ultimately show ?thesis by simp
    next
      case down
      have "\<exists>r. BinarySearch_loop entries C v first (mid - 1) = Inr r
           \<and> (r = - 1 \<or> (0 \<le> r \<and> r < int (length entries) \<and> C (entries ! nat r) v = 0))"
        using "1.IH"(2) [OF True sum mid_def idx cmp_def down] "1.prems" midn by simp
      moreover have "BinarySearch_loop entries C v first last'
                      = BinarySearch_loop entries C v first (mid - 1)"
        using True sum idx down
        by (subst BinarySearch_loop.simps) (simp add: mid_def cmp_def Let_def)
      ultimately show ?thesis by simp
    next
      case hit
      have "BinarySearch_loop entries C v first last' = Inr mid"
        using True sum idx hit
        by (subst BinarySearch_loop.simps) (simp add: mid_def cmp_def Let_def)
      then show ?thesis using mid0 midn hit by (simp add: cmp_def)
    qed
  qed
qed

lemma BinarySearch_sound:
  assumes "length entries \<le> 2 ^ 30"
  shows "\<exists>r. BinarySearch C entries v = Inr r
           \<and> (r = - 1 \<or> (0 \<le> r \<and> r < int (length entries) \<and> C (entries ! nat r) v = 0))"
  unfolding BinarySearch_def sint_size_minus_one [OF assms]
  by (rule BinarySearch_loop_sound [OF assms]) simp_all

text \<open>A hash that no entry carries is reported as not found.\<close>

lemma FindPrimitive_absent:
  assumes "length primitives \<le> 2 ^ 30" and "h \<notin> (\<lambda>p. hash (name p)) ` set primitives"
  shows "FindPrimitive primitives h = Inr None"
proof -
  obtain r where r: "BinarySearch ComparePrimitives primitives h = Inr r"
    and cases: "r = - 1 \<or> (0 \<le> r \<and> r < int (length primitives)
                  \<and> ComparePrimitives (primitives ! nat r) h = 0)"
    using BinarySearch_sound [OF assms(1), of ComparePrimitives h] by blast
  have "r = - 1"
  proof (rule ccontr)
    assume "r \<noteq> - 1"
    with cases have r0: "0 \<le> r" and rn: "r < int (length primitives)"
      and eq: "ComparePrimitives (primitives ! nat r) h = 0" by simp_all
    from eq have "h = hash (name (primitives ! nat r))"
      by (simp add: ComparePrimitives_def signed_eq_0_iff)
    moreover have "primitives ! nat r \<in> set primitives"
      using r0 rn by simp
    ultimately show False using assms(2) by auto
  qed
  with r show ?thesis by (simp add: FindPrimitive_def)
qed

section \<open>Auxiliary facts on lists and load sequences\<close>

lemma mset_butlast_update:
  assumes "i < length xs"
  shows "mset ((butlast xs)[i := last xs]) = mset xs - {#xs ! i#}"
proof -
  from assms have ne: "xs \<noteq> []" by auto
  then have split: "xs = butlast xs @ [last xs]" by simp
  then have ms: "mset xs = add_mset (last xs) (mset (butlast xs))"
    by (metis mset.simps(2) mset_append add_mset_add_single union_mset_add_mset_right mset.simps(1))
  show ?thesis
  proof (cases "i = length xs - 1")
    case True
    then have "xs ! i = last xs" using ne by (simp add: last_conv_nth)
    moreover have "(butlast xs)[i := last xs] = butlast xs"
      using True by (simp add: list_update_beyond)
    ultimately show ?thesis using ms by simp
  next
    case False
    with assms have i: "i < length (butlast xs)" by simp
    then have nth: "butlast xs ! i = xs ! i" by (simp add: nth_butlast)
    have mem: "xs ! i \<in># mset (butlast xs)"
      using i nth by (metis nth_mem set_mset_mset)
    have "mset ((butlast xs)[i := last xs]) = add_mset (last xs) (mset (butlast xs) - {#xs ! i#})"
      using i nth by (simp add: mset_update)
    also have "\<dots> = add_mset (last xs) (mset (butlast xs)) - {#xs ! i#}"
      using mem by simp
    finally show ?thesis using ms by simp
  qed
qed


section \<open>The claims\<close>

text \<open>
  C1. \<^verbatim>\<open>FindPrimitive\<close> is documented to find the entry with the given name hash in an
  array sorted by increasing hash. It does not on the array \<open>far_types\<close>: the array is
  sorted ascending and holds a node with hash \<open>0x80000002\<close>, and the search for that hash
  returns the null pointer. The unsigned difference \<open>0x80000002 - 1\<close>, read as an
  \<^verbatim>\<open>int\<close>, is negative, so the search continues to the left of index \<open>0\<close>.
\<close>

theorem FindPrimitive_misses_present_hash:
  "sorted (map (hash \<circ> name) far_types)
   \<and> type_of_hash KIND_CLASS 0x80000002 \<in> set far_types
   \<and> BinarySearch ComparePrimitives far_types 0x80000002 = Inr (- 1)
   \<and> FindPrimitive far_types (hash (name (type_of_hash KIND_CLASS 0x80000002))) = Inr None"
  by code_simp

text \<open>
  C2, as the claim states it, fails: on a facade that has not been loaded,
  \<^verbatim>\<open>GetName\<close> with a null text returns the empty name, and \<^verbatim>\<open>GetType\<close> reaches the
  dereference of the null \<^verbatim>\<open>m_DatabaseMem\<close>; no assertion is evaluated on either path.
\<close>

theorem unloaded_query_counterexample:
  "\<not> IsLoaded unloaded_db
   \<and> GetName sample_hash unloaded_db None = Inr Name_ctor
   \<and> GetType unloaded_db 30 = Inl NullDereference"
  by (simp add: unloaded_db_def Database_ctor_def IsLoaded_def GetName_def GetType_def)

text \<open>
  C2, amended. No query asserts that the database is loaded. On a facade that is not
  loaded, \<^verbatim>\<open>GetName\<close> returns the empty name for a null text and for a text whose hash
  is \<open>0\<close>; \<^verbatim>\<open>GetName\<close> on a text with a non-zero hash, \<^verbatim>\<open>GetType\<close>,
  \<^verbatim>\<open>GetNamespace\<close> and \<^verbatim>\<open>GetFunction\<close> dereference the null \<^verbatim>\<open>m_DatabaseMem\<close>.
\<close>

theorem unloaded_queries:
  "\<not> IsLoaded db \<longrightarrow>
     GetName H db None = Inr Name_ctor
     \<and> (H t = 0 \<longrightarrow> GetName H db (Some t) = Inr Name_ctor)
     \<and> (H t \<noteq> 0 \<longrightarrow> GetName H db (Some t) = Inl NullDereference)
     \<and> GetType db h = Inl NullDereference
     \<and> GetNamespace db h = Inl NullDereference
     \<and> GetFunction db h = Inl NullDereference"
  by (simp add: IsLoaded_def GetName_def GetType_def GetNamespace_def GetFunction_def)

theorem unloaded_queries_witness:
  "\<not> IsLoaded unloaded_db
   \<and> sample_hash '''' = 0 \<and> GetName sample_hash unloaded_db (Some '''') = Inr Name_ctor
   \<and> sample_hash ''a'' \<noteq> 0 \<and> GetName sample_hash unloaded_db (Some ''a'') = Inl NullDereference
   \<and> GetType unloaded_db 30 = Inl NullDereference"
  using unloaded_queries [of unloaded_db sample_hash "''''" 30]
    unloaded_queries [of unloaded_db sample_hash "''a''" 30]
  by (simp add: unloaded_db_def Database_ctor_def IsLoaded_def sample_hash_def)

text \<open>
  C3. Each cast of a \<^verbatim>\<open>Type\<close> node (\<^verbatim>\<open>AsEnum\<close>, \<^verbatim>\<open>AsTemplateType\<close>, \<^verbatim>\<open>AsClass\<close>) and
  of an \<^verbatim>\<open>Attribute\<close> node (\<^verbatim>\<open>AsIntAttribute\<close>, \<^verbatim>\<open>AsFloatAttribute\<close>,
  \<^verbatim>\<open>AsNameAttribute\<close>, \<^verbatim>\<open>AsTextAttribute\<close>) returns the node itself exactly when the
  node's kind is the target kind, and fails the assertion otherwise. On a node of kind
  \<^verbatim>\<open>KIND_CLASS\<close>, \<^verbatim>\<open>AsClass\<close> succeeds and \<^verbatim>\<open>AsEnum\<close> fails the assertion.
\<close>

theorem checked_casts:
  "(AsEnum t = Inr t \<longleftrightarrow> kind t = KIND_ENUM)
   \<and> (kind t \<noteq> KIND_ENUM \<longrightarrow> AsEnum t = Inl AssertionFailed)
   \<and> (AsTemplateType t = Inr t \<longleftrightarrow> kind t = KIND_TEMPLATE_TYPE)
   \<and> (kind t \<noteq> KIND_TEMPLATE_TYPE \<longrightarrow> AsTemplateType t = Inl AssertionFailed)
   \<and> (AsClass t = Inr t \<longleftrightarrow> kind t = KIND_CLASS)
   \<and> (kind t \<noteq> KIND_CLASS \<longrightarrow> AsClass t = Inl AssertionFailed)
   \<and> (AsIntAttribute a = Inr a \<longleftrightarrow> kind a = KIND_INT_ATTRIBUTE)
   \<and> (kind a \<noteq> KIND_INT_ATTRIBUTE \<longrightarrow> AsIntAttribute a = Inl AssertionFailed)
   \<and> (AsFloatAttribute a = Inr a \<longleftrightarrow> kind a = KIND_FLOAT_ATTRIBUTE)
   \<and> (kind a \<noteq> KIND_FLOAT_ATTRIBUTE \<longrightarrow> AsFloatAttribute a = Inl AssertionFailed)
   \<and> (AsNameAttribute a = Inr a \<longleftrightarrow> kind a = KIND_NAME_ATTRIBUTE)
   \<and> (kind a \<noteq> KIND_NAME_ATTRIBUTE \<longrightarrow> AsNameAttribute a = Inl AssertionFailed)
   \<and> (AsTextAttribute a = Inr a \<longleftrightarrow> kind a = KIND_TEXT_ATTRIBUTE)
   \<and> (kind a \<noteq> KIND_TEXT_ATTRIBUTE \<longrightarrow> AsTextAttribute a = Inl AssertionFailed)
   \<and> (kind t = KIND_CLASS \<longrightarrow> AsClass t = Inr t \<and> AsEnum t = Inl AssertionFailed)"
  by (simp add: AsEnum_def AsTemplateType_def AsClass_def AsIntAttribute_def
      AsFloatAttribute_def AsNameAttribute_def AsTextAttribute_def Assert_def)

theorem checked_casts_witness:
  "kind (type_of_hash KIND_CLASS 30) = KIND_CLASS
   \<and> AsClass (type_of_hash KIND_CLASS 30) = Inr (type_of_hash KIND_CLASS 30)
   \<and> AsEnum (type_of_hash KIND_CLASS 30) = Inl AssertionFailed
   \<and> AsTemplateType (type_of_hash KIND_CLASS 30) = Inl AssertionFailed
   \<and> AsEnum (type_of_hash KIND_ENUM 20) = Inr (type_of_hash KIND_ENUM 20)
   \<and> AsClass (type_of_hash KIND_ENUM 20) = Inl AssertionFailed
   \<and> AsIntAttribute (attribute_of_hash KIND_INT_ATTRIBUTE 5)
        = Inr (attribute_of_hash KIND_INT_ATTRIBUTE 5)
   \<and> AsFloatAttribute (attribute_of_hash KIND_INT_ATTRIBUTE 5) = Inl AssertionFailed
   \<and> AsNameAttribute (attribute_of_hash KIND_INT_ATTRIBUTE 5) = Inl AssertionFailed
   \<and> AsTextAttribute (attribute_of_hash KIND_INT_ATTRIBUTE 5) = Inl AssertionFailed"
  using checked_casts [of "type_of_hash KIND_CLASS 30" "attribute_of_hash KIND_INT_ATTRIBUTE 5"]
    checked_casts [of "type_of_hash KIND_ENUM 20" "attribute_of_hash KIND_INT_ATTRIBUTE 5"]
  by (simp add: type_of_hash_def attribute_of_hash_def)

text \<open>
  C4. \<^verbatim>\<open>GetName(text)\<close> returns the empty name (hash \<open>0\<close>, null text) when the text is
  null, when it is the empty string and the empty string hashes to \<open>0\<close> (and for every
  text that hashes to \<open>0\<close>), and when the hash of the text is not in the name table. The
  first three results hold for every facade \<open>db\<close>, loaded or not, so the name table is
  not read on these paths. The name table has at most \<open>2 ^ 30\<close> entries.
\<close>

theorem GetName_sentinel:
  "GetName H db None = Inr Name_ctor
   \<and> (H [] = 0 \<longrightarrow> GetName H db (Some []) = Inr Name_ctor)
   \<and> (H t = 0 \<longrightarrow> GetName H db (Some t) = Inr Name_ctor)
   \<and> (m_DatabaseMem db = Some mem \<and> length (names mem) \<le> 2 ^ 30
        \<and> H t \<notin> hash ` set (names mem)
        \<longrightarrow> GetName H db (Some t) = Inr Name_ctor)"
proof (intro conjI impI)
  show "GetName H db None = Inr Name_ctor" by (simp add: GetName_def)
next
  assume "H [] = 0"
  then show "GetName H db (Some []) = Inr Name_ctor" by (simp add: GetName_def)
next
  assume "H t = 0"
  then show "GetName H db (Some t) = Inr Name_ctor" by (simp add: GetName_def)
next
  assume a: "m_DatabaseMem db = Some mem \<and> length (names mem) \<le> 2 ^ 30
               \<and> H t \<notin> hash ` set (names mem)"
  then have len: "length (names mem) \<le> 2 ^ 30" by simp
  obtain r where r: "BinarySearch CompareNames (names mem) (H t) = Inr r"
    and cases: "r = - 1 \<or> (0 \<le> r \<and> r < int (length (names mem))
                  \<and> CompareNames (names mem ! nat r) (H t) = 0)"
    using BinarySearch_sound [OF len, of CompareNames "H t"] by blast
  have "r = - 1"
  proof (rule ccontr)
    assume "r \<noteq> - 1"
    with cases have r0: "0 \<le> r" and rn: "r < int (length (names mem))"
      and eq: "CompareNames (names mem ! nat r) (H t) = 0" by simp_all
    from eq have "H t = hash (names mem ! nat r)"
      by (simp add: CompareNames_def signed_eq_0_iff)
    moreover have "names mem ! nat r \<in> set (names mem)"
      using r0 rn by simp
    ultimately show False using a by auto
  qed
  with r a show "GetName H db (Some t) = Inr Name_ctor"
    by (simp add: GetName_def Let_def)
qed

theorem GetName_sentinel_witness:
  "sample_hash [] = 0 \<and> GetName sample_hash unloaded_db (Some []) = Inr Name_ctor
   \<and> m_DatabaseMem four_db = Some four_mem \<and> length (names four_mem) \<le> 2 ^ 30
   \<and> sample_hash ''a'' \<notin> hash ` set (names four_mem)
   \<and> GetName sample_hash four_db (Some ''a'') = Inr Name_ctor"
  using GetName_sentinel [of sample_hash unloaded_db "[]" four_mem]
    GetName_sentinel [of sample_hash four_db "''a''" four_mem]
  by (simp add: sample_hash_def four_db_def four_mem_def four_names_def name_of_hash_def)




text \<open>
  C6. On the sorted array with hashes \<open>10, 20, 30, 40\<close> the binary search returns
  not-found (\<open>-1\<close>) for hash \<open>25\<close>, index \<open>2\<close> for hash \<open>30\<close>, index \<open>0\<close> for hash
  \<open>10\<close> and index \<open>3\<close> for hash \<open>40\<close>, both on an array of names and on an array of
  nodes.
\<close>

theorem BinarySearch_four_entries:
  "BinarySearch CompareNames four_names 25 = Inr (- 1)
   \<and> BinarySearch CompareNames four_names 30 = Inr 2
   \<and> BinarySearch CompareNames four_names 10 = Inr 0
   \<and> BinarySearch CompareNames four_names 40 = Inr 3
   \<and> BinarySearch ComparePrimitives four_types 25 = Inr (- 1)
   \<and> BinarySearch ComparePrimitives four_types 30 = Inr 2
   \<and> BinarySearch ComparePrimitives four_types 10 = Inr 0
   \<and> BinarySearch ComparePrimitives four_types 40 = Inr 3"
  by code_simp

text \<open>
  C7. On a loaded database whose array of type primitives is empty, \<^verbatim>\<open>GetType\<close> returns
  the null pointer for every hash.
\<close>

theorem GetType_empty_database:
  "m_DatabaseMem db = Some mem \<and> type_primitives mem = [] \<longrightarrow> GetType db h = Inr None"
  by (simp add: GetType_def FindPrimitive_def BinarySearch_def size_CArray_def)

theorem GetType_empty_database_witness:
  "m_DatabaseMem empty_db = Some empty_mem \<and> type_primitives empty_mem = []
   \<and> GetType empty_db 30 = Inr None"
  using GetType_empty_database [of empty_db empty_mem 30]
  by (simp add: empty_db_def empty_mem_def)

text \<open>
  C8. For an index below the size of an array whose block is allocated,
  \<^verbatim>\<open>unstable_remove\<close> writes the last element over the element at the index and
  decrements the size: the contents afterwards are the old contents without their last
  position and with the old last element at the index, that is the old contents less
  one occurrence of the element formerly at the index. The data pointer, the allocator,
  the set of allocated cells, every other cell and every other array are unchanged. For
  an index that is not below the size the assertion fails.
\<close>

theorem unstable_remove_spec:
  "(index < size' (arrays h array) \<and> allocated h array \<longrightarrow>
           (\<exists>h'. unstable_remove h array index = Inr h'
              \<and> size' (arrays h' array) = size' (arrays h array) - 1
              \<and> data (arrays h' array) = data (arrays h array)
              \<and> allocator (arrays h' array) = allocator (arrays h array)
              \<and> (\<forall>r. r \<noteq> array \<longrightarrow> arrays h' r = arrays h r)
              \<and> dom (cells h') = dom (cells h)
              \<and> cells h' = (cells h)(data (arrays h array) + unat index :=
                               cells h (data (arrays h array) + unat (size' (arrays h array) - 1)))
              \<and> elements h' array = (butlast (elements h array))[unat index := last (elements h array)]
              \<and> mset (elements h' array) = mset (elements h array) - {#elements h array ! unat index#}))
       \<and> (\<not> index < size' (arrays h array) \<longrightarrow> unstable_remove h array index = Inl AssertionFailed)"
proof (intro conjI impI)
  assume "\<not> index < size' (arrays h array)"
  then show "unstable_remove h array index = Inl AssertionFailed"
    by (simp add: unstable_remove_def Assert_def)
next
  assume "index < size' (arrays h array) \<and> allocated h array"
  then have lt: "index < size' (arrays h array)" and al: "allocated h array" by simp_all
  define a where "a = arrays h array"
  define n where "n = unat (size' a)"
  define i where "i = unat index"
  define d where "d = data a"
  have i_lt: "i < n" using lt by (simp add: a_def n_def i_def word_less_nat_alt)
  have nz: "size' a \<noteq> 0" using lt unfolding a_def by (metis word_not_simps(1))
  have n1: "unat (size' a - 1) = n - 1" using nz by (simp add: n_def unat_minus_one)
  have alloc: "\<And>j. j < n \<Longrightarrow> cells h (d + j) \<noteq> None"
    using al by (simp add: allocated_def a_def n_def d_def)
  obtain v where v: "cells h (d + (n - 1)) = Some v"
    using alloc [of "n - 1"] i_lt by auto
  have ci: "cells h (d + i) \<noteq> None" using alloc i_lt by simp
  define h' where "h' = h\<lparr>cells := (cells h)(d + i \<mapsto> v),
                          arrays := (arrays h)(array := a\<lparr>size' := size' a - 1\<rparr>)\<rparr>"
  have res: "unstable_remove h array index = Inr h'"
    using lt v ci n1
    by (simp add: unstable_remove_def Assert_def h'_def a_def [symmetric] d_def [symmetric]
        i_def [symmetric] Let_def)
  have cells': "cells h' = (cells h)(d + i := cells h (d + (n - 1)))"
    using v by (simp add: h'_def)
  have dom_eq: "dom (cells h') = dom (cells h)"
    using ci by (auto simp: h'_def)
  have E: "elements h array = map (\<lambda>j. the (cells h (d + j))) [0 ..< n]"
    by (simp add: elements_def a_def n_def d_def)
  have E': "elements h' array = map (\<lambda>j. the (cells h' (d + j))) [0 ..< n - 1]"
    by (simp add: elements_def h'_def n1 d_def)
  have lenE: "length (elements h array) = n" by (simp add: E)
  have lastE: "last (elements h array) = the (cells h (d + (n - 1)))"
    using i_lt by (simp add: E last_conv_nth)
  have el: "elements h' array = (butlast (elements h array))[i := last (elements h array)]"
  proof (rule nth_equalityI)
    show "length (elements h' array) = length ((butlast (elements h array))[i := last (elements h array)])"
      by (simp add: E E')
  next
    fix j assume "j < length (elements h' array)"
    then have j: "j < n - 1" by (simp add: E')
    then have jn: "j < n" by simp
    then have Ej: "elements h array ! j = the (cells h (d + j))" by (simp add: E)
    from j have "elements h' array ! j = the (cells h' (d + j))" by (simp add: E')
    also have "\<dots> = (if j = i then the (cells h (d + (n - 1))) else the (cells h (d + j)))"
      by (simp add: cells')
    also have "\<dots> = (butlast (elements h array))[i := last (elements h array)] ! j"
      using j lastE Ej by (simp add: nth_list_update nth_butlast lenE)
    finally show "elements h' array ! j = (butlast (elements h array))[i := last (elements h array)] ! j" .
  qed
  have ms: "mset (elements h' array) = mset (elements h array) - {#elements h array ! i#}"
    unfolding el using i_lt lenE by (simp add: mset_butlast_update)
  show "\<exists>h'. unstable_remove h array index = Inr h'
              \<and> size' (arrays h' array) = size' (arrays h array) - 1
              \<and> data (arrays h' array) = data (arrays h array)
              \<and> allocator (arrays h' array) = allocator (arrays h array)
              \<and> (\<forall>r. r \<noteq> array \<longrightarrow> arrays h' r = arrays h r)
              \<and> dom (cells h') = dom (cells h)
              \<and> cells h' = (cells h)(data (arrays h array) + unat index :=
                               cells h (data (arrays h array) + unat (size' (arrays h array) - 1)))
              \<and> elements h' array = (butlast (elements h array))[unat index := last (elements h array)]
              \<and> mset (elements h' array) = mset (elements h array) - {#elements h array ! unat index#}"
  proof (intro exI [of _ h'] conjI)
    show "unstable_remove h array index = Inr h'" by (rule res)
    show "size' (arrays h' array) = size' (arrays h array) - 1" by (simp add: h'_def a_def)
    show "data (arrays h' array) = data (arrays h array)" by (simp add: h'_def a_def)
    show "allocator (arrays h' array) = allocator (arrays h array)" by (simp add: h'_def a_def)
    show "\<forall>r. r \<noteq> array \<longrightarrow> arrays h' r = arrays h r" by (simp add: h'_def)
    show "dom (cells h') = dom (cells h)" by (rule dom_eq)
    show "cells h' = (cells h)(data (arrays h array) + unat index :=
                               cells h (data (arrays h array) + unat (size' (arrays h array) - 1)))"
      using cells' n1 by (simp add: a_def d_def i_def)
    show "elements h' array = (butlast (elements h array))[unat index := last (elements h array)]"
      using el by (simp add: i_def)
    show "mset (elements h' array) = mset (elements h array) - {#elements h array ! unat index#}"
      using ms by (simp add: i_def)
  qed
qed

theorem unstable_remove_spec_witness:
  "(0 :: 32 word) < size' (arrays sample_heap 1) \<and> allocated sample_heap 1
   \<and> elements sample_heap 1 = [10, 20, 30]
   \<and> (\<exists>h'. unstable_remove sample_heap 1 0 = Inr h'
          \<and> size' (arrays h' 1) = 2 \<and> data (arrays h' 1) = 100 \<and> allocator (arrays h' 1) = 7
          \<and> elements h' 1 = [30, 20])
   \<and> \<not> (5 :: 32 word) < size' (arrays sample_heap 1)
   \<and> unstable_remove sample_heap 1 5 = Inl AssertionFailed"
proof -
  have lt: "(0 :: 32 word) < size' (arrays sample_heap 1)"
    by (simp add: sample_heap_def)
  have al: "allocated sample_heap 1"
    unfolding allocated_def
  proof (rule ballI)
    fix j
    assume "j \<in> {0 ..< unat (size' (arrays sample_heap 1))}"
    then have "j < 3" by (simp add: sample_heap_def)
    then have "j = 0 \<or> j = 1 \<or> j = 2" by arith
    then show "cells sample_heap (data (arrays sample_heap 1) + j) \<noteq> None"
      by (auto simp: sample_heap_def)
  qed
  have el: "elements sample_heap 1 = [10, 20, 30]"
    by (simp add: elements_def sample_heap_def upt_rec)
  have ge: "\<not> (5 :: 32 word) < size' (arrays sample_heap 1)"
    by (simp add: sample_heap_def)
  have sz: "size' (arrays sample_heap 1) - 1 = 2" "data (arrays sample_heap 1) = 100"
    "allocator (arrays sample_heap 1) = 7"
    by (simp_all add: sample_heap_def)
  from unstable_remove_spec [of 0 sample_heap 1] lt al
  obtain h' where h': "unstable_remove sample_heap 1 0 = Inr h'"
    and s': "size' (arrays h' 1) = size' (arrays sample_heap 1) - 1"
    and d': "data (arrays h' 1) = data (arrays sample_heap 1)"
    and a': "allocator (arrays h' 1) = allocator (arrays sample_heap 1)"
    and e': "elements h' 1
               = (butlast (elements sample_heap 1))[unat (0 :: 32 word) := last (elements sample_heap 1)]"
    by blast
  from e' have e'': "elements h' 1 = [30, 20]"
    unfolding el by simp
  have fail: "unstable_remove sample_heap 1 5 = Inl AssertionFailed"
    using unstable_remove_spec [of 5 sample_heap 1] ge by blast
  have "\<exists>h'. unstable_remove sample_heap 1 0 = Inr h'
          \<and> size' (arrays h' 1) = 2 \<and> data (arrays h' 1) = 100 \<and> allocator (arrays h' 1) = 7
          \<and> elements h' 1 = [30, 20]"
    using h' s' d' a' e'' unfolding sz by blast
  with lt al el ge fail show ?thesis by blast
qed

text \<open>
  C9. On a buffer of \<^verbatim>\<open>m_Size\<close> bytes, \<^verbatim>\<open>Write(data, length)\<close> with \<^verbatim>\<open>length\<close> bytes at
  \<^verbatim>\<open>data\<close>: when the write fits, the bytes are stored from the cursor position on, the
  cursor advances by \<^verbatim>\<open>length\<close>, and the capacity and every other byte are unchanged;
  when it would exceed the capacity the result is the \<open>OutOfBounds\<close> error.
\<close>

theorem Write_spec:
  assumes "length (m_Data buf) = unat (m_Size buf)" and "length bytes = unat n"
  shows "(unat (m_Position buf) + unat n \<le> unat (m_Size buf) \<longrightarrow>
           (\<exists>buf'. Write buf bytes n = Inr buf'
              \<and> m_Position buf' = m_Position buf + n
              \<and> unat (m_Position buf') = unat (m_Position buf) + unat n
              \<and> m_Size buf' = m_Size buf
              \<and> length (m_Data buf') = length (m_Data buf)
              \<and> (\<forall>i < unat n. m_Data buf' ! (unat (m_Position buf) + i) = bytes ! i)
              \<and> (\<forall>i < length (m_Data buf).
                    i < unat (m_Position buf) \<or> unat (m_Position buf) + unat n \<le> i
                      \<longrightarrow> m_Data buf' ! i = m_Data buf ! i)))
       \<and> (unat (m_Size buf) < unat (m_Position buf) + unat n \<longrightarrow>
            Write buf bytes n = Inl OutOfBounds)"
proof (intro conjI impI)
  assume "unat (m_Size buf) < unat (m_Position buf) + unat n"
  then show "Write buf bytes n = Inl OutOfBounds" by (simp add: Write_def)
next
  assume fits: "unat (m_Position buf) + unat n \<le> unat (m_Size buf)"
  define p where "p = unat (m_Position buf)"
  define k where "k = unat n"
  define old where "old = m_Data buf"
  define new where "new = take p old @ take k bytes @ drop (p + k) old"
  have len_old: "length old = unat (m_Size buf)" using assms(1) by (simp add: old_def)
  have pk: "p + k \<le> length old" using fits by (simp add: p_def k_def len_old)
  have lb: "length bytes = k" using assms(2) by (simp add: k_def)
  have "unat (m_Size buf) < 2 ^ 32" using unsigned_less [of "m_Size buf"] by simp
  then have "p + k < 2 ^ LENGTH(32)" using fits by (simp add: p_def k_def)
  then have pos: "unat (m_Position buf + n) = p + k"
    by (simp add: p_def k_def unat_add_lem [THEN iffD1])
  have res: "Write buf bytes n = Inr (buf\<lparr>m_Data := new, m_Position := m_Position buf + n\<rparr>)"
    using fits by (simp add: Write_def new_def p_def k_def old_def)
  have len_new: "length new = length old" using pk lb by (simp add: new_def)
  have written: "\<forall>i < k. new ! (p + i) = bytes ! i"
    using pk lb by (simp add: new_def nth_append)
  have kept: "\<forall>i < length old. i < p \<or> p + k \<le> i \<longrightarrow> new ! i = old ! i"
  proof (intro allI impI)
    fix i assume i: "i < length old" and out: "i < p \<or> p + k \<le> i"
    from out show "new ! i = old ! i"
    proof
      assume "i < p"
      then show ?thesis using pk by (simp add: new_def nth_append)
    next
      assume ge: "p + k \<le> i"
      then have a: "\<not> i < p" "\<not> i - p < k" by simp_all
      from ge have b: "p + k + (i - p - k) = i" by simp
      show ?thesis using pk lb i a b by (simp add: new_def nth_append)
    qed
  qed
  show "\<exists>buf'. Write buf bytes n = Inr buf'
              \<and> m_Position buf' = m_Position buf + n
              \<and> unat (m_Position buf') = unat (m_Position buf) + unat n
              \<and> m_Size buf' = m_Size buf
              \<and> length (m_Data buf') = length (m_Data buf)
              \<and> (\<forall>i < unat n. m_Data buf' ! (unat (m_Position buf) + i) = bytes ! i)
              \<and> (\<forall>i < length (m_Data buf).
                    i < unat (m_Position buf) \<or> unat (m_Position buf) + unat n \<le> i
                      \<longrightarrow> m_Data buf' ! i = m_Data buf ! i)"
    using res pos len_new written kept
    by (simp add: p_def [symmetric] k_def [symmetric] old_def [symmetric])
qed

theorem Write_spec_witness:
  "length (m_Data sample_buffer) = unat (m_Size sample_buffer)
   \<and> Write sample_buffer [7, 8] 2 = Inr \<lparr>m_Data = [0, 7, 8, 0], m_Size = 4, m_Position = 3\<rparr>
   \<and> Write sample_buffer [7, 8, 9, 9] 4 = Inl OutOfBounds"
  using Write_spec [of sample_buffer "[7, 8]" 2] Write_spec [of sample_buffer "[7, 8, 9, 9]" 4]
  by (simp add: sample_buffer_def Write_def)

text \<open>
  C10. \<^verbatim>\<open>shallow_copy(dest, src)\<close> leaves \<^verbatim>\<open>src\<close> unchanged and gives \<^verbatim>\<open>dest\<close> the size,
  the data pointer and the allocator of \<^verbatim>\<open>src\<close>; no other array and no element cell
  changes. The allocator is copied, not cleared: when \<^verbatim>\<open>src\<close> has a non-null allocator,
  both arrays carry that same non-null allocator afterwards.
\<close>

theorem shallow_copy_spec:
  "arrays (shallow_copy h dest src) src = arrays h src
   \<and> size' (arrays (shallow_copy h dest src) dest) = size' (arrays h src)
   \<and> data (arrays (shallow_copy h dest src) dest) = data (arrays h src)
   \<and> allocator (arrays (shallow_copy h dest src) dest) = allocator (arrays h src)
   \<and> (\<forall>r. r \<noteq> dest \<longrightarrow> arrays (shallow_copy h dest src) r = arrays h r)
   \<and> cells (shallow_copy h dest src) = cells h
   \<and> (allocator (arrays h src) \<noteq> 0 \<longrightarrow>
        allocator (arrays (shallow_copy h dest src) dest) \<noteq> 0
        \<and> allocator (arrays (shallow_copy h dest src) src) \<noteq> 0
        \<and> allocator (arrays (shallow_copy h dest src) dest)
            = allocator (arrays (shallow_copy h dest src) src))"
  by (cases "dest = src") (simp_all add: shallow_copy_def Let_def)

theorem shallow_copy_spec_witness:
  "allocator (arrays sample_heap 1) \<noteq> 0
   \<and> allocator (arrays (shallow_copy sample_heap 2 1) 2) = 7
   \<and> allocator (arrays (shallow_copy sample_heap 2 1) 1) = 7
   \<and> arrays (shallow_copy sample_heap 2 1) 2 = \<lparr>size' = 3, data = 100, allocator = 7\<rparr>"
  using shallow_copy_spec [of sample_heap 2 1]
  by (simp add: sample_heap_def shallow_copy_def Let_def)

end
